theory Spec2Isabelle
  imports Main
begin

section \<open>Python values, errors and name resolution\<close>

text \<open>
  The development embeds \<^verbatim>\<open>ipie/estimators/handler.py\<close>. Exceptions are values of
  \<open>error\<close>; a computation that raises returns \<open>Inl\<close> of the exception. A
  ValueError is kept with its cause, not with the text of its message: the string that
  \<^verbatim>\<open>int\<close> was given (the message shows its \<^verbatim>\<open>repr\<close>), or the lengths of a value
  and of the slice it does not fit. An OSError is kept with the file name.
\<close>

datatype value_error = InvalidLiteral string | CannotBroadcast nat nat

datatype error =
    NameError string
  | AttributeError string
  | KeyError string
  | TypeError string
  | ValueError value_error
  | IndexError
  | RuntimeError string
  | OSError string

text \<open>
  What a module-level name of \<^verbatim>\<open>handler.py\<close> is bound to. Only the estimator
  table is looked into; every other binding is an import, a class or a function.
\<close>

datatype binding =
    Imported
  | Defined
  | Table "(string \<times> string) list"

text \<open>
  The module namespace after the file has been executed, in the order of the bindings:
  the imports of lines 3 to 16, the table of line 19 (bound to the name
  \<^verbatim>\<open>_predefined_estimators\<close>), the class of line 24 and the \<^verbatim>\<open>def\<close> of line 144.
\<close>

definition module_globals :: "(string \<times> binding) list" where
  "module_globals =
     [(''print_function'', Imported), (''copy'', Imported), (''os'', Imported),
      (''time'', Imported), (''warnings'', Imported), (''h5py'', Imported),
      (''numpy'', Imported), (''scipy'', Imported), (''EnergyEstimator'', Imported),
      (''H5EstimatorHelper'', Imported), (''get_input_value'', Imported),
      (''_predefined_estimators'', Table [(''energy'', ''EnergyEstimator'')]),
      (''EstimatorHandler'', Defined), (''EstimatorHelper'', Defined)]"

text \<open>The built-in names the file mentions.\<close>

definition builtins :: "string list" where
  "builtins = [''print'', ''int'', ''object'', ''str'', ''property'',
               ''KeyError'', ''RuntimeError'']"

text \<open>
  Python resolves a name in the local scope, then in the module, then among the
  built-ins, and raises NameError otherwise.
\<close>

definition lookup_name :: "string list \<Rightarrow> string \<Rightarrow> error + binding" where
  "lookup_name locals n =
     (if n \<in> set locals then Inr Defined
      else (case map_of module_globals n of
              Some b \<Rightarrow> Inr b
            | None \<Rightarrow> if n \<in> set builtins then Inr Defined else Inl (NameError n)))"

definition subscript :: "binding \<Rightarrow> string \<Rightarrow> error + string" where
  "subscript b k =
     (case b of
        Table t \<Rightarrow> (case map_of t k of Some c \<Rightarrow> Inr c | None \<Rightarrow> Inl (KeyError k))
      | _ \<Rightarrow> Inl (TypeError ''object is not subscriptable''))"

section \<open>Strings: formatting, splitting and parsing an index\<close>

text \<open>\<^verbatim>\<open>s.split(".")\<close>: one component more than there are dots, empty ones included.\<close>

fun str_split :: "char \<Rightarrow> string \<Rightarrow> string list" where
  "str_split sep [] = [Nil]"
| "str_split sep (c # cs) =
     (if c = sep then [] # str_split sep cs
      else (case str_split sep cs of
              w # ws \<Rightarrow> (c # w) # ws
            | [] \<Rightarrow> [c # Nil]))"

definition digit_char :: "nat \<Rightarrow> char" where
  "digit_char d = ''0123456789'' ! d"

definition is_digit :: "char \<Rightarrow> bool" where
  "is_digit c = (c \<in> set ''0123456789'')"

definition digit_val :: "char \<Rightarrow> nat" where
  "digit_val c = of_char c - 48"

text \<open>The decimal digits of a natural number, most significant first.\<close>

fun str_nat :: "nat \<Rightarrow> string" where
  "str_nat n = (if n < 10 then [digit_char n]
                else str_nat (n div 10) @ [digit_char (n mod 10)])"

declare str_nat.simps [simp del]

text \<open>\<^verbatim>\<open>"%s" % i\<close> for an integer \<open>i\<close>.\<close>

definition str_int :: "int \<Rightarrow> string" where
  "str_int i = (if i < 0 then CHR ''-'' # str_nat (nat (- i)) else str_nat (nat i))"

text \<open>
  The characters below code point 256 that \<^verbatim>\<open>int()\<close> skips at both ends of its
  argument: tab, line feed, vertical tab, form feed, carriage return and space, and
  of the characters above 127 NEL and the no-break space. The separators 0x1C to 0x1F
  are not skipped.
\<close>

definition is_space :: "char \<Rightarrow> bool" where
  "is_space c = (of_char c \<in> set [9, 10, 11, 12, 13, 32, 133, 160 :: nat])"

definition strip :: "string \<Rightarrow> string" where
  "strip s = rev (dropWhile is_space (rev (dropWhile is_space s)))"

text \<open>
  The digits of a literal, with the single underscores Python allows between two
  digits; \<open>None\<close> when the literal is malformed.
\<close>

fun digits_val :: "string \<Rightarrow> nat \<Rightarrow> nat option" where
  "digits_val [] acc = Some acc"
| "digits_val (c # cs) acc =
     (if is_digit c then digits_val cs (acc * 10 + digit_val c)
      else if c = CHR ''_'' then
        (case cs of
           [] \<Rightarrow> None
         | d # ds \<Rightarrow> if is_digit d then digits_val cs acc else None)
      else None)"

text \<open>
  \<^verbatim>\<open>int(s)\<close> on a string, base 10: optional sign, then a digit, then digits and
  underscores. A string that is not such a literal raises ValueError.
\<close>

definition py_int :: "string \<Rightarrow> error + int" where
  "py_int s =
     (let bad = Inl (ValueError (InvalidLiteral s));
          t = strip s;
          neg = (t \<noteq> [] \<and> hd t = CHR ''-'');
          body = (if t \<noteq> [] \<and> (hd t = CHR ''-'' \<or> hd t = CHR ''+'') then tl t else t)
      in (case body of
            [] \<Rightarrow> bad
          | d # ds \<Rightarrow>
              if is_digit d then
                (case digits_val body 0 of
                   None \<Rightarrow> bad
                 | Some n \<Rightarrow> Inr (if neg then - int n else int n))
              else bad))"

text \<open>\<^verbatim>\<open>parts[1]\<close> on a list: IndexError when there is no second element.\<close>

definition second :: "'a list \<Rightarrow> error + 'a" where
  "second xs = (if length xs \<le> 1 then Inl IndexError else Inr (xs ! 1))"

section \<open>The output file name\<close>

text \<open>\<^verbatim>\<open>self.basename + ".%s.h5" % self.index\<close>\<close>

definition h5_name :: "string \<Rightarrow> int \<Rightarrow> string" where
  "h5_name basename index = basename @ ''.'' @ str_int index @ ''.h5''"

text \<open>
  The loop of lines 68 to 71. \<open>isfile\<close> is \<^verbatim>\<open>os.path.isfile\<close> on the file system of
  the moment, which the loop does not change. The loop has no bound of its own, so the
  result is an option: \<open>None\<close> is a loop that never ends, \<open>Some (Inl e)\<close> one that
  raises, \<open>Some (Inr (index, filename))\<close> the attributes it leaves.
\<close>

partial_function (option) next_filename ::
  "(string \<Rightarrow> bool) \<Rightarrow> bool \<Rightarrow> string \<Rightarrow> int \<Rightarrow> string \<Rightarrow> (error + int \<times> string) option"
where
  "next_filename isfile overwrite basename index filename =
     (if isfile filename \<and> \<not> overwrite then
        (case second (str_split (CHR ''.'') filename) of
           Inl e \<Rightarrow> Some (Inl e)
         | Inr part \<Rightarrow>
             (case py_int part of
                Inl e \<Rightarrow> Some (Inl e)
              | Inr i \<Rightarrow>
                  next_filename isfile overwrite basename (i + 1) (h5_name basename (i + 1))))
      else Some (Inr (index, filename)))"

section \<open>The file system and the handler's state\<close>

text \<open>
  An output file holds the records pushed to it, each a data-set name with its values;
  a file just created holds none. \<open>oplog\<close> lists every creation of and write to a file,
  in order; \<^verbatim>\<open>os.path.isfile\<close> only looks a name up and is not logged. \<open>writable\<close>
  says for each name whether a file of that name can be opened for writing: it cannot
  when its directory is missing, when the name is a directory, or when permission is
  denied. What \<^verbatim>\<open>print\<close> writes is left out.
\<close>

datatype io_op = Create string | Append string

record 'v world =
  files :: "string \<rightharpoonup> (string \<times> 'v list) list"
  oplog :: "io_op list"
  writable :: "string \<Rightarrow> bool"

definition isfile :: "'v world \<Rightarrow> string \<Rightarrow> bool" where
  "isfile w f = (f \<in> dom (files w))"

text \<open>The file system once a file of the name has been created, or emptied.\<close>

definition created :: "string \<Rightarrow> 'v world \<Rightarrow> 'v world" where
  "created f w = w\<lparr>files := (files w)(f \<mapsto> []), oplog := oplog w @ [Create f]\<rparr>"

text \<open>
  \<^verbatim>\<open>with h5py.File(name, "w") as fh5: pass\<close> creates the file, or empties it, and
  raises an OSError when the file cannot be opened for writing.
\<close>

definition h5_create :: "string \<Rightarrow> 'v world \<Rightarrow> error + 'v world" where
  "h5_create f w = (if writable w f then Inr (created f w) else Inl (OSError f))"

text \<open>
  The input options, a dictionary read with \<^verbatim>\<open>options.get(key, default)\<close>: a key
  that is absent is \<open>None\<close>. The observables are a dictionary too, kept as a list
  because its items are visited in insertion order.
\<close>

type_synonym obs_options = "(string \<times> int) list"

record options =
  opt_index :: "int option"
  opt_filename :: "string option"
  opt_basename :: "string option"
  opt_overwrite :: "bool option"
  opt_observables :: "(string \<times> obs_options) list option"

text \<open>\<^verbatim>\<open>options.get(key, default)\<close>, given what the key holds.\<close>

definition get_or :: "'a option \<Rightarrow> 'a \<Rightarrow> 'a" where
  "get_or v d = (case v of Some x \<Rightarrow> x | None \<Rightarrow> d)"

text \<open>
  Lines 62, 64, 66 and 78: what the constructor reads from the options, with the
  defaults written there.
\<close>

definition configured_index :: "options \<Rightarrow> int" where
  "configured_index opts = get_or (opt_index opts) 0"

definition configured_basename :: "options \<Rightarrow> string" where
  "configured_basename opts = get_or (opt_basename opts) ''options''"

definition configured_overwrite :: "options \<Rightarrow> bool" where
  "configured_overwrite opts = get_or (opt_overwrite opts) True"

definition configured_observables :: "options \<Rightarrow> (string \<times> obs_options) list" where
  "configured_observables opts = get_or (opt_observables opts) [(''energy'', [])]"

text \<open>
  Modelled from the spec: \<^verbatim>\<open>H5EstimatorHelper\<close> is imported from
  \<^verbatim>\<open>ipie.estimators.utils\<close>, which is not among the sources. It is the handle
  through which the reduced result is persisted, one record per push, to the file it was
  made for.
\<close>

record h5helper =
  target :: "string option"
  written :: nat

definition push_to_chunk :: "h5helper \<Rightarrow> 'v list \<Rightarrow> string \<Rightarrow> 'v world \<Rightarrow> error + 'v world" where
  "push_to_chunk out data name w =
     (case target out of
        None \<Rightarrow> Inl (TypeError ''expected a file name, not None'')
      | Some f \<Rightarrow>
          if writable w f then
            Inr (w\<lparr>files := (files w)(f \<mapsto> (case files w f of None \<Rightarrow> [] | Some rs \<Rightarrow> rs) @ [(name, data)]),
                  oplog := oplog w @ [Append f]\<rparr>)
          else Inl (OSError f))"

definition increment :: "h5helper \<Rightarrow> h5helper" where
  "increment out = out\<lparr>written := written out + 1\<rparr>"

text \<open>
  The attributes of an \<^verbatim>\<open>EstimatorHandler\<close>. An attribute that has not been assigned
  is \<open>None\<close>; for \<open>filename\<close>, \<open>None\<close> is also Python's \<^verbatim>\<open>None\<close>, which the
  constructor assigns on the ranks other than 0. The constructor assigns \<open>index\<close>,
  \<open>filename\<close>, \<open>basename\<close> and \<open>estimators\<close> only; the buffers, \<open>buffer_size\<close> and
  \<open>h5_output\<close> (the attribute \<^verbatim>\<open>output\<close>) are read by the other methods.
\<close>

record ('e, 'v) handler =
  index :: "int option"
  filename :: "string option"
  basename :: "string option"
  estimators :: "(string \<times> 'e) list"
  local_estimates :: "'v list option"
  global_estimates :: "'v list option"
  buffer_size :: "nat option"
  h5_output :: "h5helper option"

text \<open>An object on which no attribute has been assigned yet.\<close>

definition blank :: "('e, 'v) handler" where
  "blank = \<lparr>index = None, filename = None, basename = None, estimators = [],
            local_estimates = None, global_estimates = None, buffer_size = None,
            h5_output = None\<rparr>"

section \<open>\<^verbatim>\<open>EstimatorHandler.__init__\<close>\<close>

definition init_locals :: "string list" where
  "init_locals = [''self'', ''comm'', ''qmc'', ''system'', ''hamiltonian'', ''trial'',
                  ''options'', ''verbose'', ''overwrite'', ''fh5'', ''observables'',
                  ''obs'', ''obs_dict'']"

text \<open>
  Lines 61 to 77: on rank 0 the index, the file name and the base name are read from
  the options, a name is chosen when none is given, and the file is created, which may
  raise; on every other rank only \<open>filename\<close> is assigned.
\<close>

definition init_output ::
  "nat \<Rightarrow> options \<Rightarrow> 'v world \<Rightarrow> ('v world \<times> (error + ('e, 'v) handler)) option" where
  "init_output rank opts w =
     (if rank = 0 then
        (let i0 = configured_index opts;
             b = configured_basename opts;
             chosen =
               (case opt_filename opts of
                  Some f \<Rightarrow> Some (Inr (i0, f))
                | None \<Rightarrow>
                    next_filename (isfile w) (configured_overwrite opts) b i0 (h5_name b i0))
         in (case chosen of
               None \<Rightarrow> None
             | Some (Inl e) \<Rightarrow> Some (w, Inl e)
             | Some (Inr (i, f)) \<Rightarrow>
                 (case h5_create f w of
                    Inl e \<Rightarrow> Some (w, Inl e)
                  | Inr w' \<Rightarrow>
                      Some (w', Inr (blank\<lparr>index := Some i, filename := Some f,
                                         basename := Some b\<rparr>)))))
      else Some (w, Inr blank))"

text \<open>
  \<^verbatim>\<open>self.estimators[obs] = value\<close> on a dictionary: the value of a key already there
  is replaced in place, a new key goes to the end.
\<close>

fun dict_set :: "'k \<Rightarrow> 'a \<Rightarrow> ('k \<times> 'a) list \<Rightarrow> ('k \<times> 'a) list" where
  "dict_set k v [] = [(k, v)]"
| "dict_set k v ((k', v') # rest) =
     (if k = k' then (k, v) # rest else (k', v') # dict_set k v rest)"

text \<open>
  Lines 82 to 91, the body of the \<^verbatim>\<open>try\<close>: the name \<^verbatim>\<open>predefined_estimators\<close>
  is resolved, subscripted with the observable, and the class found is called.
  \<open>construct\<close> stands for the estimator classes, which are not among the sources: it
  takes the class name and the observable's options.
\<close>

definition make_estimator ::
  "(string \<Rightarrow> obs_options \<Rightarrow> error + 'e) \<Rightarrow> string \<Rightarrow> obs_options \<Rightarrow> error + 'e" where
  "make_estimator construct obs obs_dict =
     (case lookup_name init_locals ''predefined_estimators'' of
        Inl e \<Rightarrow> Inl e
      | Inr tbl \<Rightarrow>
          (case subscript tbl obs of
             Inl e \<Rightarrow> Inl e
           | Inr cls \<Rightarrow> construct cls obs_dict))"

text \<open>Lines 80 to 93: the loop over the observables, with its \<^verbatim>\<open>except KeyError\<close>.\<close>

fun init_estimators ::
  "(string \<Rightarrow> obs_options \<Rightarrow> error + 'e) \<Rightarrow> (string \<times> obs_options) list \<Rightarrow>
   (string \<times> 'e) list \<Rightarrow> error + (string \<times> 'e) list" where
  "init_estimators construct [] acc = Inr acc"
| "init_estimators construct ((obs, obs_dict) # rest) acc =
     (case make_estimator construct obs obs_dict of
        Inl (KeyError k) \<Rightarrow> Inl (RuntimeError (''unknown observable: '' @ obs))
      | Inl e \<Rightarrow> Inl e
      | Inr est \<Rightarrow> init_estimators construct rest (dict_set obs est acc))"

text \<open>
  The constructor. The result is \<open>None\<close> when the file-name loop never ends; otherwise
  the file system it leaves and either the exception raised or the handler built. A file
  created before an exception is raised stays created.
\<close>

definition EstimatorHandler_init ::
  "nat \<Rightarrow> options \<Rightarrow> (string \<Rightarrow> obs_options \<Rightarrow> error + 'e) \<Rightarrow> 'v world \<Rightarrow>
   ('v world \<times> (error + ('e, 'v) handler)) option" where
  "EstimatorHandler_init rank opts construct w =
     (case init_output rank opts w of
        None \<Rightarrow> None
      | Some (w', Inl e) \<Rightarrow> Some (w', Inl e)
      | Some (w', Inr h) \<Rightarrow>
          (case init_estimators construct (configured_observables opts) [] of
             Inl e \<Rightarrow> Some (w', Inl e)
           | Inr ests \<Rightarrow> Some (w', Inr (h\<lparr>estimators := ests\<rparr>))))"

section \<open>\<^verbatim>\<open>setup_output\<close> and \<^verbatim>\<open>compute_estimators\<close>\<close>

text \<open>
  Lines 105 to 111. For each estimator the arguments of the helper are evaluated in
  order: \<^verbatim>\<open>self.filename\<close>, \<^verbatim>\<open>self.buffer_size\<close>, then
  \<^verbatim>\<open>self.estimators.total_size\<close>, where \<^verbatim>\<open>self.estimators\<close> is the dictionary
  the constructor made, which has no such attribute.
\<close>

fun setup_loop :: "(string \<times> 'e) list \<Rightarrow> ('e, 'v) handler \<Rightarrow> error + ('e, 'v) handler" where
  "setup_loop [] h = Inr h"
| "setup_loop (ke # rest) h =
     (case buffer_size h of
        None \<Rightarrow> Inl (AttributeError ''buffer_size'')
      | Some chunk \<Rightarrow> Inl (AttributeError ''total_size''))"

definition setup_output ::
  "nat \<Rightarrow> ('e, 'v) handler \<Rightarrow> 'v world \<Rightarrow> 'v world \<times> (error + ('e, 'v) handler)" where
  "setup_output rank h w =
     (if rank = 0 then (w, setup_loop (estimators h) h) else (w, Inr h))"

text \<open>
  What \<^verbatim>\<open>compute_estimators\<close> calls on its collaborators, none of which is among
  the sources: the attributes and methods of an estimator, each taken to exist on every
  estimator, and the sum-reduction of the communicator, which takes the local buffer and
  the old global buffer and gives the new global buffer of this rank. When a method
  raises, the attributes it had assigned before are not returned.
\<close>

record ('e, 'v) collaborators =
  slice :: "'e \<Rightarrow> nat \<times> nat"
  est_compute :: "'e \<Rightarrow> error + 'v list"
  post_reduce_hook :: "'e \<Rightarrow> 'v list \<Rightarrow> 'v list"
  write_frequency :: "'e \<Rightarrow> nat"
  Reduce :: "'v list \<Rightarrow> 'v list \<Rightarrow> 'v list"

definition compute_locals :: "string list" where
  "compute_locals = [''self'', ''comm'', ''system'', ''hamiltonian'', ''trial'',
                     ''walker_batch'', ''k'', ''e'', ''estimator_slice'', ''output_string'']"

text \<open>
  \<^verbatim>\<open>buf[a:b] = vals\<close> on a one-dimensional array. The bounds are clipped to the
  array; a value as long as the slice is copied, a value of one element is broadcast
  over the slice, and any other length raises.
\<close>

definition assign_slice :: "'v list \<Rightarrow> nat \<times> nat \<Rightarrow> 'v list \<Rightarrow> error + 'v list" where
  "assign_slice buf sl vals =
     (let a = min (fst sl) (length buf); b = max a (min (snd sl) (length buf))
      in if length vals = b - a then Inr (take a buf @ vals @ drop b buf)
         else if length vals = 1 then Inr (take a buf @ replicate (b - a) (hd vals) @ drop b buf)
         else Inl (ValueError (CannotBroadcast (length vals) (b - a))))"

text \<open>
  Lines 124 to 128. The right-hand side of the assignment is evaluated first, and in
  it the arguments of the call, of which \<^verbatim>\<open>qmc\<close> is the first.
\<close>

fun fill_local ::
  "('e, 'v) collaborators \<Rightarrow> (string \<times> 'e) list \<Rightarrow> 'v list option \<Rightarrow> error + 'v list option" where
  "fill_local c [] loc = Inr loc"
| "fill_local c ((k, e) # rest) loc =
     (case lookup_name compute_locals ''qmc'' of
        Inl err \<Rightarrow> Inl err
      | Inr q \<Rightarrow>
          (case est_compute c e of
             Inl err \<Rightarrow> Inl err
           | Inr vals \<Rightarrow>
               (case loc of
                  None \<Rightarrow> Inl (AttributeError ''local_estimates'')
                | Some buf \<Rightarrow>
                    (case assign_slice buf (slice c e) vals of
                       Inl err \<Rightarrow> Inl err
                     | Inr buf' \<Rightarrow> fill_local c rest (Some buf')))))"

text \<open>Lines 131 to 139: the hook, then the write, which only rank 0 does.\<close>

fun write_all ::
  "nat \<Rightarrow> ('e, 'v) collaborators \<Rightarrow> (string \<times> 'e) list \<Rightarrow> 'v list \<Rightarrow> h5helper option \<Rightarrow>
   'v world \<Rightarrow> 'v world \<times> (error + 'v list \<times> h5helper option)" where
  "write_all rank c [] glob out w = (w, Inr (glob, out))"
| "write_all rank c ((k, e) # rest) glob out w =
     (let glob' = post_reduce_hook c e glob
      in if rank = 0 then
           (case out of
              None \<Rightarrow> (w, Inl (AttributeError ''output''))
            | Some o1 \<Rightarrow>
                (case push_to_chunk o1 glob' (''data_'' @ str_int (int (write_frequency c e))) w of
                   Inl err \<Rightarrow> (w, Inl err)
                 | Inr w' \<Rightarrow> write_all rank c rest glob' (Some (increment o1)) w'))
         else write_all rank c rest glob' out w)"

text \<open>
  The method. After the first loop the arguments of \<^verbatim>\<open>comm.Reduce\<close> are evaluated
  in order, the last being \<^verbatim>\<open>MPI.SUM\<close>; after the second loop \<^verbatim>\<open>self.zero\<close> is
  looked up, a method the class does not define.
\<close>

definition compute_estimators ::
  "nat \<Rightarrow> ('e, 'v) collaborators \<Rightarrow> ('e, 'v) handler \<Rightarrow> 'v world \<Rightarrow>
   'v world \<times> (error + ('e, 'v) handler)" where
  "compute_estimators rank c h w =
     (case fill_local c (estimators h) (local_estimates h) of
        Inl err \<Rightarrow> (w, Inl err)
      | Inr None \<Rightarrow> (w, Inl (AttributeError ''local_estimates''))
      | Inr (Some loc) \<Rightarrow>
          (case global_estimates h of
             None \<Rightarrow> (w, Inl (AttributeError ''global_estimates''))
           | Some glob \<Rightarrow>
               (case lookup_name compute_locals ''MPI'' of
                  Inl err \<Rightarrow> (w, Inl err)
                | Inr m \<Rightarrow>
                    (case write_all rank c (estimators h) (Reduce c loc glob) (h5_output h) w of
                       (w', Inl err) \<Rightarrow> (w', Inl err)
                     | (w', Inr res) \<Rightarrow> (w', Inl (AttributeError ''zero''))))))"

section \<open>\<^verbatim>\<open>EstimatorHelper\<close>\<close>

text \<open>
  Line 144 declares \<^verbatim>\<open>EstimatorHelper\<close> with \<^verbatim>\<open>def\<close>, so it is a function of one
  argument whose body defines three local functions and returns nothing. Defining
  \<^verbatim>\<open>push\<close> evaluates its annotations when annotations are evaluated eagerly (the
  interpreters before Python 3.14); \<open>eager\<close> says which interpreter runs the file.
\<close>

record helper_state =
  est_names :: "string list"
  shapes :: "nat list list"
  offset_tbl :: "(string \<times> nat) list"
  num_estim :: nat

datatype pyval = PyNone | PyHelper helper_state

definition EstimatorHelper :: "bool \<Rightarrow> 'a \<Rightarrow> error + pyval" where
  "EstimatorHelper eager object =
     (if eager then
        (case lookup_name [''object'', ''__init__''] ''EstimatorBase'' of
           Inl e \<Rightarrow> Inl e
         | Inr b \<Rightarrow> Inr PyNone)
      else Inr PyNone)"

text \<open>\<^verbatim>\<open>helper.push\<close>: looking the method up on what \<^verbatim>\<open>EstimatorHelper\<close> returned.\<close>

definition get_push :: "pyval \<Rightarrow> error + helper_state" where
  "get_push v =
     (case v of
        PyNone \<Rightarrow> Inl (AttributeError ''push'')
      | PyHelper st \<Rightarrow> Inr st)"

text \<open>
  Lines 153 to 160, the body of the local function \<^verbatim>\<open>push\<close>. It has the parameters
  \<^verbatim>\<open>name\<close> and \<^verbatim>\<open>estimator\<close> only, so the \<^verbatim>\<open>self\<close> of its first statement
  is resolved in the enclosing function and then in the module. No statement after the
  first is reached; the last ones add \<^verbatim>\<open>np.prod(shape)\<close> to the previous offset.
\<close>

definition push :: "string \<Rightarrow> nat list \<Rightarrow> error + helper_state" where
  "push name shape =
     (case lookup_name [''name'', ''estimator'', ''shape'', ''prev_obs'', ''offset'',
                        ''object'', ''__init__'', ''push''] ''self'' of
        Inl e \<Rightarrow> Inl e
      | Inr b \<Rightarrow> Inl (AttributeError ''_estimators''))"

section \<open>Inputs used in the examples\<close>

text \<open>
  The options \<^verbatim>\<open>{}\<close>, \<^verbatim>\<open>{"observables": {}}\<close> and
  \<^verbatim>\<open>{"observables": {"foo": {}}}\<close>; an estimator class that builds; an empty
  directory and one where \<^verbatim>\<open>options.0.h5\<close> holds a record.
\<close>

definition default_options :: options where
  "default_options = \<lparr>opt_index = None, opt_filename = None, opt_basename = None,
                       opt_overwrite = None, opt_observables = None\<rparr>"

definition no_observables :: options where
  "no_observables = default_options\<lparr>opt_observables := Some []\<rparr>"

definition unknown_observable :: options where
  "unknown_observable = default_options\<lparr>opt_observables := Some [(''foo'', [])]\<rparr>"

definition any_estimator :: "string \<Rightarrow> obs_options \<Rightarrow> error + unit" where
  "any_estimator cls obs_dict = Inr ()"

definition empty_dir :: "int world" where
  "empty_dir = \<lparr>files = Map.empty, oplog = [], writable = (\<lambda>f. True)\<rparr>"

definition used_dir :: "int world" where
  "used_dir = \<lparr>files = [''options.0.h5'' \<mapsto> [(''data_1'', [1, 2, 3])]], oplog = [],
              writable = (\<lambda>f. True)\<rparr>"

text \<open>
  Options that set \<^verbatim>\<open>overwrite\<close> to \<^verbatim>\<open>False\<close>, alone and with the base names
  \<^verbatim>\<open>x.5\<close> and \<^verbatim>\<open>my.data\<close>, and directories where the first candidate of each
  base name exists.
\<close>

definition keep_files :: options where
  "keep_files = no_observables\<lparr>opt_overwrite := Some False\<rparr>"

definition dotted_numeric :: options where
  "dotted_numeric = keep_files\<lparr>opt_basename := Some ''x.5''\<rparr>"

definition dotted_numeric_dir :: "int world" where
  "dotted_numeric_dir = \<lparr>files = [''x.5.0.h5'' \<mapsto> []], oplog = [],
                        writable = (\<lambda>f. True)\<rparr>"

definition dotted_word :: options where
  "dotted_word = keep_files\<lparr>opt_basename := Some ''my.data''\<rparr>"

definition dotted_word_dir :: "int world" where
  "dotted_word_dir = \<lparr>files = [''my.data.0.h5'' \<mapsto> []], oplog = [],
                     writable = (\<lambda>f. True)\<rparr>"

text \<open>
  A base name in the directory \<^verbatim>\<open>nodir\<close>, and an empty working directory that has
  no such directory, so that no file can be opened under it.
\<close>

definition in_missing_dir :: options where
  "in_missing_dir = keep_files\<lparr>opt_basename := Some ''nodir/out''\<rparr>"

definition no_such_dir :: "int world" where
  "no_such_dir = \<lparr>files = Map.empty, oplog = [],
                 writable = (\<lambda>f. take 6 f \<noteq> ''nodir/'')\<rparr>"

text \<open>
  A handler on which every attribute the methods read has been assigned, with one
  estimator, and collaborators that all succeed.
\<close>

definition ready_handler :: "(unit, int) handler" where
  "ready_handler =
     \<lparr>index = Some 0, filename = Some ''options.0.h5'', basename = Some ''options'',
      estimators = [(''energy'', ())], local_estimates = Some [0, 0],
      global_estimates = Some [0, 0], buffer_size = Some 1,
      h5_output = Some \<lparr>target = Some ''options.0.h5'', written = 0\<rparr>\<rparr>"

definition ready_collaborators :: "(unit, int) collaborators" where
  "ready_collaborators =
     \<lparr>slice = (\<lambda>e. (0, 2)), est_compute = (\<lambda>e. Inr [1, 2]),
      post_reduce_hook = (\<lambda>e glob. glob), write_frequency = (\<lambda>e. 1),
      Reduce = (\<lambda>loc glob. loc)\<rparr>"

section \<open>Facts about name resolution\<close>

lemma lookup_predefined_estimators:
  "lookup_name init_locals ''predefined_estimators'' = Inl (NameError ''predefined_estimators'')"
  by (simp add: lookup_name_def init_locals_def module_globals_def builtins_def)

lemma lookup_qmc: "lookup_name compute_locals ''qmc'' = Inl (NameError ''qmc'')"
  by (simp add: lookup_name_def compute_locals_def module_globals_def builtins_def)

lemma lookup_MPI: "lookup_name compute_locals ''MPI'' = Inl (NameError ''MPI'')"
  by (simp add: lookup_name_def compute_locals_def module_globals_def builtins_def)

lemma make_estimator_raises:
  "make_estimator construct obs obs_dict = Inl (NameError ''predefined_estimators'')"
  by (simp add: make_estimator_def lookup_predefined_estimators)

lemma init_estimators_raises:
  "observables \<noteq> [] \<Longrightarrow>
   init_estimators construct observables acc = Inl (NameError ''predefined_estimators'')"
  by (cases observables) (auto simp: make_estimator_raises)

lemma fill_local_raises:
  "ests \<noteq> [] \<Longrightarrow> fill_local c ests loc = Inl (NameError ''qmc'')"
  by (cases ests) (auto simp: lookup_qmc)

lemma compute_estimators_result:
  "compute_estimators rank c h w =
     (w, Inl (if estimators h \<noteq> [] then NameError ''qmc''
              else if local_estimates h = None then AttributeError ''local_estimates''
              else if global_estimates h = None then AttributeError ''global_estimates''
              else NameError ''MPI''))"
  by (cases "estimators h")
     (auto simp: compute_estimators_def fill_local_raises lookup_MPI split: option.splits)

lemma init_output_other_rank:
  "rank \<noteq> 0 \<Longrightarrow> \<exists>h. init_output rank opts w = Some (w, Inr h) \<and> filename h = None"
  by (simp add: init_output_def blank_def)

section \<open>Facts about the index in a file name\<close>

lemma lt10: "d < 10 \<Longrightarrow> d \<in> set [0,1,2,3,4,5,6,7,8,9::nat]"
  by (simp) arith

lemma is_digit_digit_char: "d < 10 \<Longrightarrow> is_digit (digit_char d)"
  by (drule lt10) (auto simp: is_digit_def digit_char_def)

lemma digit_val_digit_char: "d < 10 \<Longrightarrow> digit_val (digit_char d) = d"
  by (drule lt10) (auto simp: digit_val_def digit_char_def)

lemma is_digit_not_special:
  "is_digit c \<Longrightarrow> \<not> is_space c \<and> c \<noteq> CHR ''.'' \<and> c \<noteq> CHR ''-'' \<and> c \<noteq> CHR ''+'' \<and> c \<noteq> CHR ''_''"
  by (auto simp: is_digit_def is_space_def)

lemma str_nat_digits: "list_all is_digit (str_nat n)"
  by (induction n rule: str_nat.induct) (subst str_nat.simps, simp add: is_digit_digit_char)

lemma str_nat_nonempty: "str_nat n \<noteq> []"
  by (subst str_nat.simps) simp

lemma digits_val_digits:
  "list_all is_digit xs \<Longrightarrow>
   digits_val xs acc = Some (foldl (\<lambda>a c. a * 10 + digit_val c) acc xs)"
  by (induction xs arbitrary: acc) auto

lemma foldl_str_nat: "foldl (\<lambda>a c. a * 10 + digit_val c) 0 (str_nat n) = n"
proof (induction n rule: str_nat.induct)
  case (1 n)
  show ?case
  proof (cases "n < 10")
    case True
    then show ?thesis by (subst str_nat.simps) (simp add: digit_val_digit_char)
  next
    case False
    with 1 show ?thesis by (subst str_nat.simps) (simp add: digit_val_digit_char)
  qed
qed

lemma digits_val_str_nat: "digits_val (str_nat n) 0 = Some n"
  by (simp add: digits_val_digits str_nat_digits foldl_str_nat)

lemma strip_id: "s \<noteq> [] \<Longrightarrow> \<not> is_space (hd s) \<Longrightarrow> \<not> is_space (last s) \<Longrightarrow> strip s = s"
proof -
  assume a: "s \<noteq> []" "\<not> is_space (hd s)" "\<not> is_space (last s)"
  have 1: "dropWhile is_space s = s" using a by (cases s) auto
  have 2: "dropWhile is_space (rev s) = rev s" using a by (cases "rev s") (auto simp: last_rev hd_rev)
  show ?thesis by (simp add: strip_def 1 2)
qed

lemma strip_str_nat: "strip (str_nat n) = str_nat n"
proof -
  have d: "list_all is_digit (str_nat n)" by (rule str_nat_digits)
  have ne: "str_nat n \<noteq> []" by (rule str_nat_nonempty)
  have "is_digit (hd (str_nat n))" "is_digit (last (str_nat n))"
    using d ne by (auto simp: list_all_iff)
  then show ?thesis using ne by (intro strip_id) (auto dest: is_digit_not_special)
qed

lemma strip_minus_str_nat: "strip (CHR ''-'' # str_nat n) = CHR ''-'' # str_nat n"
proof -
  have d: "list_all is_digit (str_nat n)" by (rule str_nat_digits)
  have ne: "str_nat n \<noteq> []" by (rule str_nat_nonempty)
  have "is_digit (last (str_nat n))" using d ne by (auto simp: list_all_iff)
  then show ?thesis using ne by (intro strip_id) (auto dest: is_digit_not_special simp: is_space_def)
qed

lemma py_int_digits:
  assumes "str_nat n = d # ds"
  shows "py_int (str_nat n) = Inr (int n)" and "py_int (CHR ''-'' # str_nat n) = Inr (- int n)"
proof -
  have dig: "is_digit d" using str_nat_digits [of n] assms by simp
  have val: "digits_val (d # ds) 0 = Some n" using digits_val_str_nat [of n] assms by simp
  have ns: "d \<noteq> CHR ''-''" "d \<noteq> CHR ''+''" using dig by (auto dest: is_digit_not_special)
  have s1: "strip (d # ds) = d # ds" using strip_str_nat [of n] assms by simp
  have s2: "strip (CHR ''-'' # d # ds) = CHR ''-'' # d # ds"
    using strip_minus_str_nat [of n] assms by simp
  show "py_int (str_nat n) = Inr (int n)"
    unfolding assms py_int_def Let_def s1 using dig val ns by (simp del: digits_val.simps)
  show "py_int (CHR ''-'' # str_nat n) = Inr (- int n)"
    unfolding assms py_int_def Let_def s2 using dig val by (simp del: digits_val.simps)
qed

lemma py_int_str_int: "py_int (str_int i) = Inr i"
proof -
  obtain d ds where ds: "str_nat (nat \<bar>i\<bar>) = d # ds"
    using str_nat_nonempty [of "nat \<bar>i\<bar>"] by (cases "str_nat (nat \<bar>i\<bar>)") auto
  show ?thesis
  proof (cases "i < 0")
    case True
    then have "str_int i = CHR ''-'' # str_nat (nat \<bar>i\<bar>)" by (simp add: str_int_def)
    then show ?thesis using py_int_digits(2) [OF ds] True by simp
  next
    case False
    then have "str_int i = str_nat (nat \<bar>i\<bar>)" by (simp add: str_int_def)
    then show ?thesis using py_int_digits(1) [OF ds] False by simp
  qed
qed

lemma str_split_nonempty: "str_split sep s \<noteq> []"
  by (induction s) (auto split: list.splits)

lemma str_split_append: "str_split sep (s @ sep # t) = str_split sep s @ str_split sep t"
  by (induction s) (auto split: list.splits simp: str_split_nonempty)

lemma str_split_no_sep: "sep \<notin> set s \<Longrightarrow> str_split sep s = [s]"
  by (induction s) auto

lemma length_str_split: "sep \<in> set s \<Longrightarrow> 2 \<le> length (str_split sep s)"
proof -
  assume "sep \<in> set s"
  then obtain a r where "s = a @ sep # r" by (auto simp: in_set_conv_decomp)
  then have "length (str_split sep s) = length (str_split sep a) + length (str_split sep r)"
    by (simp add: str_split_append)
  moreover have "1 \<le> length (str_split sep a)" "1 \<le> length (str_split sep r)"
    using str_split_nonempty [of sep a] str_split_nonempty [of sep r] by (auto simp: Suc_le_eq)
  ultimately show ?thesis by simp
qed

lemma str_int_no_dot: "CHR ''.'' \<notin> set (str_int i)"
  using str_nat_digits by (auto simp: str_int_def list_all_iff dest: is_digit_not_special)

lemma h5_name_split:
  "str_split (CHR ''.'') (h5_name b i) = str_split (CHR ''.'') b @ [str_int i, ''h5'']"
proof -
  have "h5_name b i = b @ CHR ''.'' # (str_int i @ CHR ''.'' # ''h5'')" by (simp add: h5_name_def)
  then show ?thesis
    by (simp only: str_split_append) (simp add: str_split_no_sep str_int_no_dot)
qed

lemma second_h5_name_plain:
  "CHR ''.'' \<notin> set b \<Longrightarrow> second (str_split (CHR ''.'') (h5_name b i)) = Inr (str_int i)"
  by (simp add: h5_name_split str_split_no_sep second_def)

lemma second_h5_name_dotted:
  "CHR ''.'' \<in> set b \<Longrightarrow>
   second (str_split (CHR ''.'') (h5_name b i)) = Inr (str_split (CHR ''.'') b ! 1)"
  using length_str_split [of "CHR ''.''" b]
  by (auto simp: h5_name_split second_def nth_append)

section \<open>Facts about the file-name loop\<close>

lemma next_filename_stop:
  "\<not> F f \<or> ov \<Longrightarrow> next_filename F ov b idx f = Some (Inr (idx, f))"
  by (subst next_filename.simps) auto

lemma next_filename_step_plain:
  "CHR ''.'' \<notin> set b \<Longrightarrow> F (h5_name b i) \<Longrightarrow>
   next_filename F False b idx (h5_name b i) = next_filename F False b (i + 1) (h5_name b (i + 1))"
  by (subst next_filename.simps) (simp add: second_h5_name_plain py_int_str_int)

lemma next_filename_run_plain:
  assumes "CHR ''.'' \<notin> set b" and "\<not> F (h5_name b k)"
  shows "i \<le> k \<Longrightarrow> (\<forall>j. i \<le> j \<and> j < k \<longrightarrow> F (h5_name b j)) \<Longrightarrow>
         next_filename F False b idx (h5_name b i) = Some (Inr (if i = k then idx else k, h5_name b k))"
proof (induction "nat (k - i)" arbitrary: i idx)
  case 0
  then have "i = k" by simp
  then show ?case using assms by (simp add: next_filename_stop)
next
  case (Suc n)
  then have lt: "i < k" by linarith
  then have "F (h5_name b i)" using Suc.prems by simp
  then have "next_filename F False b idx (h5_name b i)
             = next_filename F False b (i + 1) (h5_name b (i + 1))"
    using assms(1) by (rule next_filename_step_plain [rotated])
  also have "\<dots> = Some (Inr (if i + 1 = k then i + 1 else k, h5_name b k))"
    using Suc lt by (intro Suc.hyps(1)) auto
  finally show ?case using lt by auto
qed




lemma next_filename_step_dotted:
  "CHR ''.'' \<in> set b \<Longrightarrow> F (h5_name b i) \<Longrightarrow>
   next_filename F False b idx (h5_name b i) =
     (case py_int (str_split (CHR ''.'') b ! 1) of
        Inl e \<Rightarrow> Some (Inl e)
      | Inr p \<Rightarrow> next_filename F False b (p + 1) (h5_name b (p + 1)))"
  by (subst next_filename.simps) (simp add: second_h5_name_dotted)

lemma next_filename_dotted_loop:
  assumes dot: "CHR ''.'' \<in> set b"
      and num: "py_int (str_split (CHR ''.'') b ! 1) = Inr p"
      and ex: "F (h5_name b (p + 1))"
  shows "next_filename F False b idx (h5_name b (p + 1)) = None"
proof (rule ccontr)
  assume "next_filename F False b idx (h5_name b (p + 1)) \<noteq> None"
  then obtain y where y: "next_filename F False b idx (h5_name b (p + 1)) = Some y" by auto
  have "\<not> (F = F \<and> \<not> False \<and> b = b \<and> h5_name b (p + 1) = h5_name b (p + 1))"
  proof (rule next_filename.raw_induct
      [where P = "\<lambda>F' ov' b' idx' f' y'. \<not> (F' = F \<and> \<not> ov' \<and> b' = b \<and> f' = h5_name b (p + 1))",
       OF _ y])
    fix nf F' ov' b' idx' f' y'
    assume IH: "\<And>F1 ov1 b1 idx1 f1 y1. nf F1 ov1 b1 idx1 f1 = Some y1 \<Longrightarrow>
                  \<not> (F1 = F \<and> \<not> ov1 \<and> b1 = b \<and> f1 = h5_name b (p + 1))"
      and body: "(if F' f' \<and> \<not> ov'
                  then case second (str_split (CHR ''.'') f') of
                         Inl e \<Rightarrow> Some (Inl e)
                       | Inr part \<Rightarrow>
                           (case py_int part of
                              Inl e \<Rightarrow> Some (Inl e)
                            | Inr i \<Rightarrow> nf F' ov' b' (i + 1) (h5_name b' (i + 1)))
                  else Some (Inr (idx', f'))) = Some y'"
    show "\<not> (F' = F \<and> \<not> ov' \<and> b' = b \<and> f' = h5_name b (p + 1))"
    proof
      assume eq: "F' = F \<and> \<not> ov' \<and> b' = b \<and> f' = h5_name b (p + 1)"
      then have "nf F False b (p + 1) (h5_name b (p + 1)) = Some y'"
        using body ex dot num by (simp add: second_h5_name_dotted)
      from IH [OF this] show False by simp
    qed
  qed
  then show False by simp
qed

section \<open>Facts about the constructor\<close>

lemma h5_name_options_0: "h5_name ''options'' 0 = ''options.0.h5''"
  by (simp add: h5_name_def str_int_def str_nat.simps digit_char_def)

lemma write_all_other_rank:
  "rank \<noteq> 0 \<Longrightarrow> write_all rank c ests glob out w = (w, Inr (foldl (\<lambda>g ke. post_reduce_hook c (snd ke) g) glob ests, out))"
  by (induction ests arbitrary: glob) (auto simp: Let_def)

lemma init_rank0_named:
  assumes "opt_filename opts = None"
      and "next_filename (isfile w) (configured_overwrite opts) (configured_basename opts)
             (configured_index opts) (h5_name (configured_basename opts) (configured_index opts))
           = Some (Inr (k, f))"
  shows "EstimatorHandler_init 0 opts construct w =
           Some (if writable w f
                 then (created f w,
                       if configured_observables opts = []
                       then Inr (blank\<lparr>index := Some k, filename := Some f,
                                       basename := Some (configured_basename opts)\<rparr>)
                       else Inl (NameError ''predefined_estimators''))
                 else (w, Inl (OSError f)))"
  using assms
  by (auto simp: EstimatorHandler_init_def init_output_def h5_create_def Let_def
        init_estimators_raises blank_def)

lemma init_rank0_raises:
  assumes "opt_filename opts = None"
      and "next_filename (isfile w) (configured_overwrite opts) (configured_basename opts)
             (configured_index opts) (h5_name (configured_basename opts) (configured_index opts))
           = Some (Inl e)"
  shows "EstimatorHandler_init 0 opts construct w = Some (w, Inl e)"
  using assms by (simp add: EstimatorHandler_init_def init_output_def Let_def)

lemma init_rank0_diverges:
  assumes "opt_filename opts = None"
      and "next_filename (isfile w) (configured_overwrite opts) (configured_basename opts)
             (configured_index opts) (h5_name (configured_basename opts) (configured_index opts))
           = None"
  shows "EstimatorHandler_init 0 opts construct w = None"
  using assms by (simp add: EstimatorHandler_init_def init_output_def Let_def)



lemma default_options_read:
  "opt_filename default_options = None" "configured_index default_options = 0"
  "configured_basename default_options = ''options''" "configured_overwrite default_options"
  "configured_observables default_options = [(''energy'', [])]"
  by (simp_all add: default_options_def configured_index_def configured_basename_def
        configured_overwrite_def configured_observables_def get_or_def)



lemma init_rank0_plain:
  assumes nof: "opt_filename opts = None"
      and ov: "\<not> configured_overwrite opts"
      and dot: "CHR ''.'' \<notin> set (configured_basename opts)"
      and le: "configured_index opts \<le> k"
      and free: "\<not> isfile w (h5_name (configured_basename opts) k)"
      and used: "\<forall>j. configured_index opts \<le> j \<and> j < k \<longrightarrow> isfile w (h5_name (configured_basename opts) j)"
  shows "EstimatorHandler_init 0 opts construct w =
           Some (if writable w (h5_name (configured_basename opts) k)
                 then (created (h5_name (configured_basename opts) k) w,
                       if configured_observables opts = []
                       then Inr (blank\<lparr>index := Some k,
                                       filename := Some (h5_name (configured_basename opts) k),
                                       basename := Some (configured_basename opts)\<rparr>)
                       else Inl (NameError ''predefined_estimators''))
                 else (w, Inl (OSError (h5_name (configured_basename opts) k))))"
proof -
  have "next_filename (isfile w) False (configured_basename opts) (configured_index opts)
          (h5_name (configured_basename opts) (configured_index opts))
        = Some (Inr (if configured_index opts = k then configured_index opts else k,
                     h5_name (configured_basename opts) k))"
    using dot free le used by (rule next_filename_run_plain)
  then have "next_filename (isfile w) (configured_overwrite opts) (configured_basename opts)
          (configured_index opts) (h5_name (configured_basename opts) (configured_index opts))
        = Some (Inr (k, h5_name (configured_basename opts) k))"
    using ov by (simp split: if_splits)
  with nof show ?thesis by (rule init_rank0_named)
qed


lemma overwrite_disabled: "opt_overwrite opts = Some False \<Longrightarrow> \<not> configured_overwrite opts"
  by (simp add: configured_overwrite_def get_or_def)

lemma init_rank0_dotted:
  assumes nof: "opt_filename opts = None"
      and ov: "\<not> configured_overwrite opts"
      and dot: "CHR ''.'' \<in> set (configured_basename opts)"
      and ex: "isfile w (h5_name (configured_basename opts) (configured_index opts))"
  shows "case py_int (str_split (CHR ''.'') (configured_basename opts) ! 1) of
           Inl e \<Rightarrow> EstimatorHandler_init 0 opts construct w = Some (w, Inl e)
         | Inr p \<Rightarrow>
             if isfile w (h5_name (configured_basename opts) (p + 1))
             then EstimatorHandler_init 0 opts construct w = None
             else EstimatorHandler_init 0 opts construct w =
                    Some (if writable w (h5_name (configured_basename opts) (p + 1))
                          then (created (h5_name (configured_basename opts) (p + 1)) w,
                                if configured_observables opts = []
                                then Inr (blank\<lparr>index := Some (p + 1),
                                                filename := Some (h5_name (configured_basename opts) (p + 1)),
                                                basename := Some (configured_basename opts)\<rparr>)
                                else Inl (NameError ''predefined_estimators''))
                          else (w, Inl (OSError (h5_name (configured_basename opts) (p + 1)))))"
proof (cases "py_int (str_split (CHR ''.'') (configured_basename opts) ! 1)")
  case (Inl e)
  have "next_filename (isfile w) False (configured_basename opts) (configured_index opts)
          (h5_name (configured_basename opts) (configured_index opts)) = Some (Inl e)"
    using Inl by (simp add: next_filename_step_dotted
        [where F = "isfile w" and b = "configured_basename opts" and i = "configured_index opts",
         OF dot ex])
  then have "EstimatorHandler_init 0 opts construct w = Some (w, Inl e)"
    using ov by (intro init_rank0_raises [OF nof]) simp
  then show ?thesis using Inl by simp
next
  case (Inr p)
  have step: "next_filename (isfile w) False (configured_basename opts) (configured_index opts)
          (h5_name (configured_basename opts) (configured_index opts))
        = next_filename (isfile w) False (configured_basename opts) (p + 1)
            (h5_name (configured_basename opts) (p + 1))"
    using Inr by (simp add: next_filename_step_dotted
        [where F = "isfile w" and b = "configured_basename opts" and i = "configured_index opts",
         OF dot ex])
  show ?thesis
  proof (cases "isfile w (h5_name (configured_basename opts) (p + 1))")
    case True
    have "next_filename (isfile w) False (configured_basename opts) (p + 1)
            (h5_name (configured_basename opts) (p + 1)) = None"
      using dot Inr True
      by (rule next_filename_dotted_loop [where F = "isfile w"])
    then have "EstimatorHandler_init 0 opts construct w = None"
      using ov step by (intro init_rank0_diverges [OF nof]) simp
    then show ?thesis using Inr True by simp
  next
    case False
    have "next_filename (isfile w) False (configured_basename opts) (p + 1)
            (h5_name (configured_basename opts) (p + 1))
          = Some (Inr (p + 1, h5_name (configured_basename opts) (p + 1)))"
      using False by (simp add: next_filename_stop)
    then have "next_filename (isfile w) (configured_overwrite opts) (configured_basename opts)
            (configured_index opts) (h5_name (configured_basename opts) (configured_index opts))
          = Some (Inr (p + 1, h5_name (configured_basename opts) (p + 1)))"
      using ov step by simp
    from init_rank0_named [OF nof this, of construct]
    show ?thesis using Inr False by simp
  qed
qed


lemma keep_files_read:
  "opt_filename keep_files = None" "configured_index keep_files = 0"
  "configured_basename keep_files = ''options''" "\<not> configured_overwrite keep_files"
  "configured_observables keep_files = []" "opt_overwrite keep_files = Some False"
  by (simp_all add: keep_files_def no_observables_def default_options_def configured_index_def
        configured_basename_def configured_overwrite_def configured_observables_def get_or_def)

lemma dotted_numeric_read:
  "opt_filename dotted_numeric = None" "configured_index dotted_numeric = 0"
  "configured_basename dotted_numeric = ''x.5''" "\<not> configured_overwrite dotted_numeric"
  "configured_observables dotted_numeric = []" "opt_overwrite dotted_numeric = Some False"
  by (simp_all add: dotted_numeric_def keep_files_def no_observables_def default_options_def
        configured_index_def configured_basename_def configured_overwrite_def
        configured_observables_def get_or_def)

lemma dotted_word_read:
  "opt_filename dotted_word = None" "configured_index dotted_word = 0"
  "configured_basename dotted_word = ''my.data''" "\<not> configured_overwrite dotted_word"
  "configured_observables dotted_word = []" "opt_overwrite dotted_word = Some False"
  by (simp_all add: dotted_word_def keep_files_def no_observables_def default_options_def
        configured_index_def configured_basename_def configured_overwrite_def
        configured_observables_def get_or_def)

lemma in_missing_dir_read:
  "opt_filename in_missing_dir = None" "configured_index in_missing_dir = 0"
  "configured_basename in_missing_dir = ''nodir/out''" "\<not> configured_overwrite in_missing_dir"
  "configured_observables in_missing_dir = []" "opt_overwrite in_missing_dir = Some False"
  by (simp_all add: in_missing_dir_def keep_files_def no_observables_def default_options_def
        configured_index_def configured_basename_def configured_overwrite_def
        configured_observables_def get_or_def)

lemma h5_name_examples:
  "h5_name ''options'' 1 = ''options.1.h5''" "h5_name ''x.5'' 0 = ''x.5.0.h5''"
  "h5_name ''x.5'' 6 = ''x.5.6.h5''" "h5_name ''my.data'' 0 = ''my.data.0.h5''"
  "h5_name ''nodir/out'' 0 = ''nodir/out.0.h5''"
  by (simp_all add: h5_name_def str_int_def str_nat.simps digit_char_def)

lemma py_int_examples:
  "py_int ''5'' = Inr 5"
  "py_int ''data'' = Inl (ValueError (InvalidLiteral ''data''))"
  by (simp_all add: py_int_def strip_def is_space_def is_digit_def digit_val_def)

lemma example_dirs:
  "writable empty_dir f" "writable used_dir f" "writable dotted_numeric_dir f"
  "writable dotted_word_dir f" "\<not> writable no_such_dir ''nodir/out.0.h5''"
  "finite (dom (files used_dir))" "finite (dom (files no_such_dir))"
  "isfile used_dir ''options.0.h5''" "\<not> isfile used_dir ''options.1.h5''"
  "isfile dotted_numeric_dir ''x.5.0.h5''" "\<not> isfile dotted_numeric_dir ''x.5.6.h5''"
  "isfile dotted_word_dir ''my.data.0.h5''" "\<not> isfile no_such_dir ''nodir/out.0.h5''"
  by (simp_all add: empty_dir_def used_dir_def dotted_numeric_dir_def dotted_word_dir_def
        no_such_dir_def isfile_def)

section \<open>The observables of the configuration\<close>

text \<open>
  C4. A configuration whose observables name something outside the predefined set
  should make the constructor fail with an error that names the unknown observable. On
  \<^verbatim>\<open>{"observables": {"foo": {}}}\<close> the constructor, on rank 0 in an empty
  directory, creates \<^verbatim>\<open>options.0.h5\<close> and then raises NameError for
  \<^verbatim>\<open>predefined_estimators\<close>, the table being bound to \<^verbatim>\<open>_predefined_estimators\<close>;
  this is not the RuntimeError of line 93 and does not name the observable.
\<close>

theorem unknown_observable_raises_NameError:
  "EstimatorHandler_init 0 unknown_observable any_estimator empty_dir
     = Some (created ''options.0.h5'' empty_dir, Inl (NameError ''predefined_estimators''))
   \<and> NameError ''predefined_estimators'' \<noteq> RuntimeError ''unknown observable: foo''"
proof -
  have r: "opt_filename unknown_observable = None" "configured_index unknown_observable = 0"
    "configured_basename unknown_observable = ''options''" "configured_overwrite unknown_observable"
    "configured_observables unknown_observable = [(''foo'', [])]"
    by (simp_all add: unknown_observable_def default_options_def configured_index_def configured_basename_def
        configured_overwrite_def configured_observables_def get_or_def)
  have "next_filename (isfile empty_dir) True ''options'' 0 (h5_name ''options'' 0)
          = Some (Inr (0, ''options.0.h5''))"
    by (simp add: next_filename_stop h5_name_options_0)
  then show ?thesis using init_rank0_named [of unknown_observable empty_dir 0 "''options.0.h5''" any_estimator]
    by (simp add: r example_dirs)
qed

text \<open>
  C5. A configuration whose only observable is "energy", the default included, should
  build a handler whose estimators map "energy" to an energy estimator. On the options
  \<^verbatim>\<open>{}\<close> the constructor, on rank 0 in an empty directory, raises the same NameError
  and builds no handler.
\<close>

theorem energy_observable_raises_NameError:
  "EstimatorHandler_init 0 default_options any_estimator empty_dir
     = Some (created ''options.0.h5'' empty_dir, Inl (NameError ''predefined_estimators''))"
proof -
  have "next_filename (isfile empty_dir) True ''options'' 0 (h5_name ''options'' 0)
          = Some (Inr (0, ''options.0.h5''))"
    by (simp add: next_filename_stop h5_name_options_0)
  then show ?thesis using init_rank0_named [of default_options empty_dir 0 "''options.0.h5''" any_estimator]
    by (simp add: default_options_read example_dirs)
qed

section \<open>Computing the estimators\<close>

text \<open>
  C6. A call of \<^verbatim>\<open>compute_estimators\<close> should fill the local buffer, sum-reduce it
  into the global buffer, write the result on rank 0 and zero the local buffer. On a
  handler with every attribute assigned and one estimator the call raises NameError for
  \<^verbatim>\<open>qmc\<close> while it evaluates the arguments of the first estimator, with nothing
  written.
\<close>

theorem compute_estimators_raises_before_reduce:
  "compute_estimators 0 ready_collaborators ready_handler used_dir
     = (used_dir, Inl (NameError ''qmc''))"
  by (simp add: compute_estimators_result ready_handler_def)

section \<open>The ranks other than 0\<close>

text \<open>
  C7. On a rank other than 0 no operation of the handler touches an output file: the
  constructor returns with the file system as it was and, when it builds a handler,
  with \<open>filename\<close> being \<^verbatim>\<open>None\<close>; \<^verbatim>\<open>setup_output\<close> changes neither the file
  system nor the handler; \<^verbatim>\<open>compute_estimators\<close> leaves the file system as it was,
  and so does its write loop taken alone.
\<close>

theorem other_ranks_never_touch_output:
  assumes "rank \<noteq> 0"
  shows "(\<exists>r. EstimatorHandler_init rank opts construct w = Some (w, r) \<and>
              (\<forall>h. r = Inr h \<longrightarrow> filename h = None))
       \<and> setup_output rank h w = (w, Inr h)
       \<and> fst (compute_estimators rank c h w) = w
       \<and> fst (write_all rank c ests glob out w) = w"
proof -
  obtain h0 :: "('a, 'b) handler"
    where h0: "init_output rank opts w = Some (w, Inr h0)" "filename h0 = None"
    using init_output_other_rank [OF assms] by blast
  have "\<exists>r. EstimatorHandler_init rank opts construct w = Some (w, r) \<and>
              (\<forall>h. r = Inr h \<longrightarrow> filename h = None)"
    using h0 by (auto simp: EstimatorHandler_init_def split: sum.splits)
  moreover have "setup_output rank h w = (w, Inr h)"
    using assms by (simp add: setup_output_def)
  moreover have "fst (compute_estimators rank c h w) = w"
    by (simp add: compute_estimators_result)
  moreover have "fst (write_all rank c ests glob out w) = w"
    using assms by (simp add: write_all_other_rank)
  ultimately show ?thesis by blast
qed

theorem other_ranks_never_touch_output_witness:
  "(1::nat) \<noteq> 0
   \<and> (\<exists>r. EstimatorHandler_init 1 no_observables any_estimator used_dir = Some (used_dir, r) \<and>
              (\<forall>h. r = Inr h \<longrightarrow> filename h = None))
   \<and> setup_output 1 ready_handler used_dir = (used_dir, Inr ready_handler)
   \<and> fst (compute_estimators 1 ready_collaborators ready_handler used_dir) = used_dir
   \<and> fst (write_all 1 ready_collaborators [(''energy'', ())] [4, 5]
            (Some \<lparr>target = Some ''options.0.h5'', written = 0\<rparr>) used_dir) = used_dir"
proof -
  have h: "(1::nat) \<noteq> 0" by simp
  show ?thesis
    using h other_ranks_never_touch_output [OF h, of no_observables any_estimator used_dir
        ready_handler ready_collaborators "[(''energy'', ())]" "[4, 5]"
        "Some \<lparr>target = Some ''options.0.h5'', written = 0\<rparr>"]
    by blast
qed

section \<open>The offsets of the estimators\<close>

text \<open>
  C9. Pushing estimators in sequence should give each the sum of the sizes pushed
  before it as its offset. \<^verbatim>\<open>EstimatorHelper(object)\<close> builds no helper: it raises
  NameError for the annotation \<^verbatim>\<open>EstimatorBase\<close>, or returns \<^verbatim>\<open>None\<close> where
  annotations are not evaluated, and \<^verbatim>\<open>None\<close> has no \<^verbatim>\<open>push\<close>; the body of
  \<^verbatim>\<open>push\<close> itself raises NameError for \<^verbatim>\<open>self\<close>.
\<close>

theorem EstimatorHelper_builds_nothing:
  "EstimatorHelper True () = Inl (NameError ''EstimatorBase'')
   \<and> EstimatorHelper False () = Inr PyNone
   \<and> get_push PyNone = Inl (AttributeError ''push'')
   \<and> push ''energy'' [3] = Inl (NameError ''self'')"
  by (simp add: EstimatorHelper_def get_push_def push_def lookup_name_def module_globals_def
        builtins_def)

section \<open>The name of the output file\<close>




section \<open>The index read back from the file name\<close>

text \<open>
  C10, as the claim states it, fails in its last part: the base name \<^verbatim>\<open>x.5\<close> has a
  dot, and with \<^verbatim>\<open>x.5.0.h5\<close> existing and \<^verbatim>\<open>overwrite\<close> false the loop reads 5
  from the name, does not fail, and ends with the unused name \<^verbatim>\<open>x.5.6.h5\<close>.
\<close>

theorem dotted_basename_finds_fresh_name:
  "opt_overwrite dotted_numeric = Some False
   \<and> CHR ''.'' \<in> set (configured_basename dotted_numeric)
   \<and> isfile dotted_numeric_dir ''x.5.0.h5''
   \<and> \<not> isfile dotted_numeric_dir ''x.5.6.h5''
   \<and> EstimatorHandler_init 0 dotted_numeric any_estimator dotted_numeric_dir
       = Some (created ''x.5.6.h5'' dotted_numeric_dir,
               Inr (blank\<lparr>index := Some 6, filename := Some ''x.5.6.h5'',
                           basename := Some ''x.5''\<rparr>))"
proof -
  have ex: "isfile dotted_numeric_dir ''x.5.0.h5''" and free: "\<not> isfile dotted_numeric_dir ''x.5.6.h5''"
    by (rule example_dirs)+
  have dot: "CHR ''.'' \<in> set (configured_basename dotted_numeric)"
    by (simp add: dotted_numeric_read)
  have "EstimatorHandler_init 0 dotted_numeric any_estimator dotted_numeric_dir
       = Some (created ''x.5.6.h5'' dotted_numeric_dir,
               Inr (blank\<lparr>index := Some 6, filename := Some ''x.5.6.h5'',
                           basename := Some ''x.5''\<rparr>))"
    using init_rank0_dotted [OF dotted_numeric_read(1) dotted_numeric_read(4) dot,
        where w = dotted_numeric_dir and construct = any_estimator] ex free
    by (simp add: dotted_numeric_read h5_name_examples py_int_examples example_dirs)
  then show ?thesis using ex free dot by (simp add: dotted_numeric_read)
qed

text \<open>
  C10, amended. With no file name configured and \<^verbatim>\<open>overwrite\<close> set to false, on
  rank 0: for a base name without a dot, the index starting at 0, and the files of
  the indices below \<open>k\<close> existing but not that of \<open>k\<close>, the constructor ends the loop
  with index \<open>k\<close> and creates the file of index \<open>k\<close>, or raises an OSError when
  that file cannot be opened for writing; a handler that is built carries index \<open>k\<close>
  and that name. For a base name with a dot whose first candidate exists, the loop
  parses the second component of the base name instead of the index: it raises the
  ValueError of \<^verbatim>\<open>int\<close> when that component is not an integer literal; otherwise,
  \<open>p\<close> being its value, it never ends when the file of index \<open>p + 1\<close> exists and
  it ends with index \<open>p + 1\<close> when it does not.
\<close>

theorem index_parsed_from_second_component:
  assumes nof: "opt_filename opts = None" and off: "opt_overwrite opts = Some False"
  shows "(CHR ''.'' \<notin> set (configured_basename opts) \<and> configured_index opts = 0 \<and> 0 \<le> k
            \<and> (\<forall>i. 0 \<le> i \<and> i < k \<longrightarrow> isfile w (h5_name (configured_basename opts) i))
            \<and> \<not> isfile w (h5_name (configured_basename opts) k) \<longrightarrow>
          (if writable w (h5_name (configured_basename opts) k)
           then \<exists>r. EstimatorHandler_init 0 opts construct w
                       = Some (created (h5_name (configured_basename opts) k) w, r)
                   \<and> (\<forall>h. r = Inr h \<longrightarrow>
                         index h = Some k
                         \<and> filename h = Some (h5_name (configured_basename opts) k))
           else EstimatorHandler_init 0 opts construct w
                  = Some (w, Inl (OSError (h5_name (configured_basename opts) k)))))
       \<and> (CHR ''.'' \<in> set (configured_basename opts)
            \<and> isfile w (h5_name (configured_basename opts) (configured_index opts)) \<longrightarrow>
          (case py_int (str_split (CHR ''.'') (configured_basename opts) ! 1) of
             Inl e \<Rightarrow> EstimatorHandler_init 0 opts construct w = Some (w, Inl e)
           | Inr p \<Rightarrow>
               if isfile w (h5_name (configured_basename opts) (p + 1))
               then EstimatorHandler_init 0 opts construct w = None
               else if writable w (h5_name (configured_basename opts) (p + 1))
               then \<exists>r. EstimatorHandler_init 0 opts construct w
                           = Some (created (h5_name (configured_basename opts) (p + 1)) w, r)
                       \<and> (\<forall>h. r = Inr h \<longrightarrow>
                             index h = Some (p + 1)
                             \<and> filename h = Some (h5_name (configured_basename opts) (p + 1)))
               else EstimatorHandler_init 0 opts construct w
                      = Some (w, Inl (OSError (h5_name (configured_basename opts) (p + 1))))))"
proof (intro conjI impI)
  note ov = overwrite_disabled [OF off]
  assume a: "CHR ''.'' \<notin> set (configured_basename opts) \<and> configured_index opts = 0 \<and> 0 \<le> k
            \<and> (\<forall>i. 0 \<le> i \<and> i < k \<longrightarrow> isfile w (h5_name (configured_basename opts) i))
            \<and> \<not> isfile w (h5_name (configured_basename opts) k)"
  then have dot: "CHR ''.'' \<notin> set (configured_basename opts)"
    and le: "configured_index opts \<le> k"
    and free: "\<not> isfile w (h5_name (configured_basename opts) k)"
    and used: "\<forall>j. configured_index opts \<le> j \<and> j < k \<longrightarrow>
                 isfile w (h5_name (configured_basename opts) j)"
    by simp_all
  show "if writable w (h5_name (configured_basename opts) k)
           then \<exists>r. EstimatorHandler_init 0 opts construct w
                       = Some (created (h5_name (configured_basename opts) k) w, r)
                   \<and> (\<forall>h. r = Inr h \<longrightarrow>
                         index h = Some k
                         \<and> filename h = Some (h5_name (configured_basename opts) k))
           else EstimatorHandler_init 0 opts construct w
                  = Some (w, Inl (OSError (h5_name (configured_basename opts) k)))"
    unfolding init_rank0_plain [OF nof ov dot le free used] by (auto split: if_splits)
next
  note ov = overwrite_disabled [OF off]
  assume a: "CHR ''.'' \<in> set (configured_basename opts)
            \<and> isfile w (h5_name (configured_basename opts) (configured_index opts))"
  show "case py_int (str_split (CHR ''.'') (configured_basename opts) ! 1) of
             Inl e \<Rightarrow> EstimatorHandler_init 0 opts construct w = Some (w, Inl e)
           | Inr p \<Rightarrow>
               if isfile w (h5_name (configured_basename opts) (p + 1))
               then EstimatorHandler_init 0 opts construct w = None
               else if writable w (h5_name (configured_basename opts) (p + 1))
               then \<exists>r. EstimatorHandler_init 0 opts construct w
                           = Some (created (h5_name (configured_basename opts) (p + 1)) w, r)
                       \<and> (\<forall>h. r = Inr h \<longrightarrow>
                             index h = Some (p + 1)
                             \<and> filename h = Some (h5_name (configured_basename opts) (p + 1)))
               else EstimatorHandler_init 0 opts construct w
                      = Some (w, Inl (OSError (h5_name (configured_basename opts) (p + 1))))"
    using init_rank0_dotted [OF nof ov conjunct1 [OF a] conjunct2 [OF a], of construct]
    by (auto split: sum.splits if_splits)
qed

theorem index_parsed_from_second_component_witness:
  "opt_filename keep_files = None \<and> opt_overwrite keep_files = Some False
   \<and> CHR ''.'' \<notin> set (configured_basename keep_files) \<and> configured_index keep_files = 0
   \<and> (0::int) \<le> 1
   \<and> isfile used_dir (h5_name (configured_basename keep_files) 0)
   \<and> \<not> isfile used_dir (h5_name (configured_basename keep_files) 1)
   \<and> writable used_dir (h5_name (configured_basename keep_files) 1)
   \<and> (\<exists>r. EstimatorHandler_init 0 keep_files any_estimator used_dir
             = Some (created (h5_name (configured_basename keep_files) 1) used_dir, r)
         \<and> (\<forall>h. r = Inr h \<longrightarrow>
               index h = Some 1 \<and> filename h = Some (h5_name (configured_basename keep_files) 1)))
   \<and> opt_filename in_missing_dir = None \<and> opt_overwrite in_missing_dir = Some False
   \<and> CHR ''.'' \<notin> set (configured_basename in_missing_dir)
   \<and> configured_index in_missing_dir = 0
   \<and> \<not> isfile no_such_dir (h5_name (configured_basename in_missing_dir) 0)
   \<and> \<not> writable no_such_dir (h5_name (configured_basename in_missing_dir) 0)
   \<and> EstimatorHandler_init 0 in_missing_dir any_estimator no_such_dir
       = Some (no_such_dir, Inl (OSError (h5_name (configured_basename in_missing_dir) 0)))
   \<and> opt_filename dotted_word = None \<and> opt_overwrite dotted_word = Some False
   \<and> CHR ''.'' \<in> set (configured_basename dotted_word)
   \<and> isfile dotted_word_dir (h5_name (configured_basename dotted_word) (configured_index dotted_word))
   \<and> EstimatorHandler_init 0 dotted_word any_estimator dotted_word_dir
       = Some (dotted_word_dir, Inl (ValueError (InvalidLiteral ''data'')))"
proof -
  have a1: "opt_filename keep_files = None" by (rule keep_files_read)
  have a2: "opt_overwrite keep_files = Some False" by (rule keep_files_read)
  have a3: "CHR ''.'' \<notin> set (configured_basename keep_files)" by (simp add: keep_files_read)
  have a4: "configured_index keep_files = 0" by (rule keep_files_read)
  have a0: "(0::int) \<le> 1" by simp
  have a5: "\<forall>i. 0 \<le> i \<and> i < 1 \<longrightarrow> isfile used_dir (h5_name (configured_basename keep_files) i)"
  proof (intro allI impI)
    fix i :: int assume "0 \<le> i \<and> i < 1"
    then have "i = 0" by simp
    then show "isfile used_dir (h5_name (configured_basename keep_files) i)"
      by (simp add: keep_files_read h5_name_options_0 example_dirs)
  qed
  have a6: "\<not> isfile used_dir (h5_name (configured_basename keep_files) 1)"
    by (simp add: keep_files_read h5_name_examples example_dirs)
  have a7: "isfile used_dir (h5_name (configured_basename keep_files) 0)"
    using a5 by simp
  have a8: "writable used_dir (h5_name (configured_basename keep_files) 1)"
    by (rule example_dirs)
  have c1: "opt_filename in_missing_dir = None" by (rule in_missing_dir_read)
  have c2: "opt_overwrite in_missing_dir = Some False" by (rule in_missing_dir_read)
  have c3: "CHR ''.'' \<notin> set (configured_basename in_missing_dir)"
    by (simp add: in_missing_dir_read)
  have c4: "configured_index in_missing_dir = 0" by (rule in_missing_dir_read)
  have c5: "\<not> isfile no_such_dir (h5_name (configured_basename in_missing_dir) 0)"
    by (simp add: in_missing_dir_read h5_name_examples example_dirs)
  have c6: "\<not> writable no_such_dir (h5_name (configured_basename in_missing_dir) 0)"
    by (simp add: in_missing_dir_read h5_name_examples example_dirs)
  have c7: "\<forall>i::int. 0 \<le> i \<and> i < 0 \<longrightarrow>
              isfile no_such_dir (h5_name (configured_basename in_missing_dir) i)"
    by auto
  have b1: "opt_filename dotted_word = None" by (rule dotted_word_read)
  have b2: "opt_overwrite dotted_word = Some False" by (rule dotted_word_read)
  have b3: "CHR ''.'' \<in> set (configured_basename dotted_word)" by (simp add: dotted_word_read)
  have b4: "isfile dotted_word_dir
              (h5_name (configured_basename dotted_word) (configured_index dotted_word))"
    by (simp add: dotted_word_read h5_name_examples example_dirs)
  have A: "\<exists>r. EstimatorHandler_init 0 keep_files any_estimator used_dir
             = Some (created (h5_name (configured_basename keep_files) 1) used_dir, r)
         \<and> (\<forall>h. r = Inr h \<longrightarrow>
               index h = Some 1 \<and> filename h = Some (h5_name (configured_basename keep_files) 1))"
    using index_parsed_from_second_component
      [OF a1 a2, where k = 1 and w = used_dir and construct = any_estimator] a3 a4 a5 a6 a8
    by simp
  have C: "EstimatorHandler_init 0 in_missing_dir any_estimator no_such_dir
       = Some (no_such_dir, Inl (OSError (h5_name (configured_basename in_missing_dir) 0)))"
  proof -
    have z: "(0::int) \<le> 0" by simp
    have ante: "CHR ''.'' \<notin> set (configured_basename in_missing_dir)
        \<and> configured_index in_missing_dir = 0 \<and> (0::int) \<le> 0
        \<and> (\<forall>i. 0 \<le> i \<and> i < 0 \<longrightarrow>
               isfile no_such_dir (h5_name (configured_basename in_missing_dir) i))
        \<and> \<not> isfile no_such_dir (h5_name (configured_basename in_missing_dir) 0)"
      by (intro conjI) (fact c3 c4 z c7 c5)+
    from mp [OF conjunct1 [OF index_parsed_from_second_component
          [OF c1 c2, where k = 0 and w = no_such_dir and construct = any_estimator]] ante]
    show ?thesis using c6 by (simp only: if_False)
  qed
  have B: "EstimatorHandler_init 0 dotted_word any_estimator dotted_word_dir
       = Some (dotted_word_dir, Inl (ValueError (InvalidLiteral ''data'')))"
    using index_parsed_from_second_component
      [OF b1 b2, where k = 0 and w = dotted_word_dir and construct = any_estimator] b3 b4
    by (simp add: dotted_word_read py_int_examples)
  show ?thesis
    by (intro conjI) (fact a0 a1 a2 a3 a4 a6 a7 a8 A c1 c2 c3 c4 c5 c6 C b1 b2 b3 b4 B)+
qed

end
